theory Spec2Isabelle
  imports Complex_Main
begin

section \<open>Tensors\<close>

text \<open>
  The optimizer of \<^verbatim>\<open>cosmos_transfer1/utils/fused_adam.py\<close> only does bookkeeping on
  tensors: it reads their dtype, device and shape, creates a few small ones and hands the
  large ones to native kernels. A tensor is modelled by its metadata and its contents in
  row-major order. The contents are idealised as real numbers: a conversion between
  floating-point dtypes keeps the values (the rounding of the native conversion is not
  modelled), a conversion to an integer dtype truncates towards zero and wraps.
\<close>

datatype dtype = Float16 | BFloat16 | Float32 | Float64 | Int32 | Int64

datatype device = CPU | CUDA nat

record tensor =
  t_dtype :: dtype
  t_shape :: "nat list"
  t_device :: device
  is_sparse :: bool
  requires_grad :: bool
  t_vals :: "real list"

datatype error =
    RuntimeError string
  | KeyError string
  | AttributeError string

definition trunc :: "real \<Rightarrow> int" where
  "trunc x = (if x < 0 then \<lceil>x\<rceil> else \<lfloor>x\<rfloor>)"

definition wrap_int :: "nat \<Rightarrow> int \<Rightarrow> int" where
  \<comment> \<open>two's complement value of \<open>n\<close> in \<open>w\<close> bits\<close>
  "wrap_int w n = (n + 2 ^ (w - 1)) mod 2 ^ w - 2 ^ (w - 1)"

definition cast :: "dtype \<Rightarrow> real \<Rightarrow> real" where
  "cast d x =
     (case d of
        Int32 \<Rightarrow> of_int (wrap_int 32 (trunc x))
      | Int64 \<Rightarrow> of_int (wrap_int 64 (trunc x))
      | _ \<Rightarrow> x)"

definition to_dtype :: "dtype \<Rightarrow> tensor \<Rightarrow> tensor" where
  \<comment> \<open>\<^verbatim>\<open>t.to(dtype)\<close>\<close>
  "to_dtype d t = t\<lparr>t_dtype := d, t_vals := map (cast d) (t_vals t)\<rparr>"

definition float32 :: "tensor \<Rightarrow> tensor" where
  \<comment> \<open>\<^verbatim>\<open>t.float()\<close>\<close>
  "float32 t = to_dtype Float32 t"

definition double :: "tensor \<Rightarrow> tensor" where
  \<comment> \<open>\<^verbatim>\<open>t.double()\<close>\<close>
  "double t = to_dtype Float64 t"

definition reciprocal :: "tensor \<Rightarrow> tensor" where
  \<comment> \<open>\<^verbatim>\<open>t.reciprocal()\<close>; at a zero element the native result is an infinity, which the
      idealised contents do not represent\<close>
  "reciprocal t = t\<lparr>t_vals := map inverse (t_vals t)\<rparr>"

definition to_device :: "device \<Rightarrow> tensor \<Rightarrow> tensor" where
  \<comment> \<open>\<^verbatim>\<open>t.to(device=device)\<close>\<close>
  "to_device dev t = t\<lparr>t_device := dev\<rparr>"

definition detach :: "tensor \<Rightarrow> tensor" where
  \<comment> \<open>\<^verbatim>\<open>t.detach()\<close> and \<^verbatim>\<open>t.data\<close>: the same contents, cut from the autograd graph\<close>
  "detach t = t\<lparr>requires_grad := False\<rparr>"

definition clone :: "tensor \<Rightarrow> tensor" where
  \<comment> \<open>\<^verbatim>\<open>t.clone()\<close>: a new tensor with the contents of \<open>t\<close> at this moment\<close>
  "clone t = t"

definition zeros_like :: "tensor \<Rightarrow> tensor" where
  \<comment> \<open>\<^verbatim>\<open>torch.zeros_like(t)\<close>\<close>
  "zeros_like t = t\<lparr>requires_grad := False, t_vals := map (\<lambda>_. 0) (t_vals t)\<rparr>"

definition zeros1 :: "device \<Rightarrow> tensor" where
  \<comment> \<open>\<^verbatim>\<open>torch.zeros((1,), device=device)\<close>\<close>
  "zeros1 dev = \<lparr>t_dtype = Float32, t_shape = [1], t_device = dev, is_sparse = False,
                 requires_grad = False, t_vals = [0]\<rparr>"

definition ones1 :: "device \<Rightarrow> tensor" where
  \<comment> \<open>\<^verbatim>\<open>torch.ones((1,), device=device, dtype=torch.float32)\<close>\<close>
  "ones1 dev = \<lparr>t_dtype = Float32, t_shape = [1], t_device = dev, is_sparse = False,
                requires_grad = False, t_vals = [1]\<rparr>"

text \<open>Values a parameter group stores under \<^verbatim>\<open>"lr"\<close> and \<^verbatim>\<open>"step"\<close>.\<close>

datatype pyval = PyInt int | PyFloat real | PyTensor tensor

fun isinstance_float :: "pyval \<Rightarrow> bool" where
  "isinstance_float (PyFloat x) = True"
| "isinstance_float v = False"

fun torch_tensor :: "pyval \<Rightarrow> dtype \<Rightarrow> device option \<Rightarrow> tensor" where
  \<comment> \<open>\<^verbatim>\<open>torch.tensor(v, dtype=d, device=dev)\<close>: a number gives a tensor of shape \<open>[]\<close>,
      on the CPU unless a device is given; a tensor is copied\<close>
  "torch_tensor (PyInt n) d dev =
     \<lparr>t_dtype = d, t_shape = [], t_device = (case dev of None \<Rightarrow> CPU | Some v \<Rightarrow> v),
      is_sparse = False, requires_grad = False, t_vals = [cast d (of_int n)]\<rparr>"
| "torch_tensor (PyFloat x) d dev =
     \<lparr>t_dtype = d, t_shape = [], t_device = (case dev of None \<Rightarrow> CPU | Some v \<Rightarrow> v),
      is_sparse = False, requires_grad = False, t_vals = [cast d x]\<rparr>"
| "torch_tensor (PyTensor t) d dev =
     (let c = to_dtype d (detach (clone t))
      in case dev of None \<Rightarrow> c | Some v \<Rightarrow> to_device v c)"

definition torch_tensor_list1 :: "pyval \<Rightarrow> dtype \<Rightarrow> device option \<Rightarrow> tensor" where
  \<comment> \<open>\<^verbatim>\<open>torch.tensor([v], dtype=d, device=dev)\<close> for one number \<open>v\<close>: shape \<open>[1]\<close>\<close>
  "torch_tensor_list1 v d dev = (torch_tensor v d dev)\<lparr>t_shape := [1]\<rparr>"

definition iadd_flag :: "tensor \<Rightarrow> int \<Rightarrow> error + tensor" where
  \<comment> \<open>\<^verbatim>\<open>t += f\<close> for an int32 tensor \<open>f\<close> of shape \<open>[1]\<close> holding \<open>inc\<close>: an in-place
      operation cannot change the shape of \<open>t\<close>, so a tensor of shape \<open>[]\<close> is refused\<close>
  "iadd_flag t inc =
     (if t_shape t = [] then Inl (RuntimeError ''output shape does not match the broadcast shape'')
      else Inr (t\<lparr>t_vals := map (\<lambda>x. cast (t_dtype t) (x + of_int inc)) (t_vals t)\<rparr>))"

fun iadd_one :: "pyval \<Rightarrow> pyval" where
  \<comment> \<open>\<^verbatim>\<open>v += 1\<close>\<close>
  "iadd_one (PyInt n) = PyInt (n + 1)"
| "iadd_one (PyFloat x) = PyFloat (x + 1)"
| "iadd_one (PyTensor t) = PyTensor (t\<lparr>t_vals := map (\<lambda>x. cast (t_dtype t) (x + 1)) (t_vals t)\<rparr>)"

definition item :: "tensor \<Rightarrow> error + pyval" where
  \<comment> \<open>\<^verbatim>\<open>t.item()\<close>: only a tensor with one element converts to a Python number\<close>
  "item t =
     (case t_vals t of
        [x] \<Rightarrow> Inr (if t_dtype t = Int32 \<or> t_dtype t = Int64 then PyInt (trunc x) else PyFloat x)
      | _ \<Rightarrow> Inl (RuntimeError ''a Tensor with several elements cannot be converted to Scalar''))"

section \<open>The optimizer object\<close>

text \<open>
  A parameter is an object: \<open>p_id\<close> is its identity, the key under which
  \<^verbatim>\<open>self.state\<close> files its moments. \<open>p_data\<close> is the parameter tensor itself and
  \<open>p_grad\<close> is \<^verbatim>\<open>p.grad\<close>.
\<close>

record param =
  p_id :: nat
  p_data :: tensor
  p_grad :: "tensor option"

text \<open>
  A parameter group is a dict; the keys the optimizer reads are fields. \<^verbatim>\<open>"step"\<close> is
  absent until the first step, and \<^verbatim>\<open>"bias_correction"\<close> is tested with \<^verbatim>\<open>in\<close>.
\<close>

record group =
  g_params :: "param list"
  g_lr :: pyval
  g_bias_correction :: "bool option"
  g_betas :: "real \<times> real"
  g_eps :: real
  g_weight_decay :: real
  g_step :: "pyval option"

type_synonym state_dict = "string \<Rightarrow> tensor option"

type_synonym opt_state = "nat \<Rightarrow> state_dict option"

record optimizer =
  param_groups :: "group list"
  state :: opt_state
  adam_w_mode :: nat
  capturable :: bool
  master_weights :: bool
  param_groups_master :: "tensor option list list option"
  dummy_overflow_buf :: int
  step_supports_amp_scaling :: bool

text \<open>
  \<open>state\<close> is the \<^verbatim>\<open>defaultdict(dict)\<close> of the base class, keyed by parameter.
  \<open>param_groups_master\<close> is \<^verbatim>\<open>None\<close> or a list with one \<^verbatim>\<open>{"params": [...]}\<close> per
  group, kept here as the list under \<^verbatim>\<open>"params"\<close>. \<open>dummy_overflow_buf\<close> is the single
  element of the int32 tensor \<^verbatim>\<open>torch.tensor([0], dtype=torch.int, device="cuda")\<close>, whose
  shape \<open>[1]\<close> never changes.
\<close>

text \<open>
  The scaler is \<^verbatim>\<open>torch.cuda.amp.GradScaler\<close>, outside the repository: what
  \<^verbatim>\<open>_check_inf_per_device(self)\<close> and \<^verbatim>\<open>_get_scale_async()\<close> return is given.
\<close>

record grad_scaler =
  check_inf_per_device :: "device \<Rightarrow> tensor option"
  get_scale_async :: tensor

subsection \<open>What a native kernel receives\<close>

text \<open>
  The kernels of \<^verbatim>\<open>amp_C\<close> are outside the repository and update in place the tensors
  they are handed. A launch is recorded as an event with the arguments of
  \<^verbatim>\<open>multi_tensor_applier\<close>, in order. A tensor in a list is recorded with the
  parameter it belongs to and its role, so that the event says which objects the kernel
  may write.
\<close>

datatype entry =
    multi_tensor_adam
  | multi_tensor_adam_capturable
  | multi_tensor_adam_capturable_master

datatype slot = Grad | Data | ExpAvg | ExpAvgSq | Master

record tobj =
  o_owner :: nat
  o_slot :: slot
  o_val :: tensor

record kernel_call =
  k_entry :: entry
  k_noop_flag :: int
  k_lists :: "tobj list list"
  k_lr :: pyval
  k_beta1 :: real
  k_beta2 :: real
  k_eps :: real
  k_step :: pyval
  k_adam_w_mode :: nat
  k_bias_correction :: nat
  k_weight_decay :: real
  k_inv_scale :: "tensor option"

definition multi_tensor_applier ::
  "entry \<Rightarrow> int \<Rightarrow> tobj list list \<Rightarrow> pyval \<Rightarrow> real \<Rightarrow> real \<Rightarrow> real \<Rightarrow> pyval \<Rightarrow> nat \<Rightarrow> nat \<Rightarrow> real
     \<Rightarrow> tensor option \<Rightarrow> kernel_call" where
  "multi_tensor_applier op noop_flag tensor_lists lr beta1 beta2 eps stp mode bias wd inv_scale =
     \<lparr>k_entry = op, k_noop_flag = noop_flag, k_lists = tensor_lists, k_lr = lr, k_beta1 = beta1,
      k_beta2 = beta2, k_eps = eps, k_step = stp, k_adam_w_mode = mode, k_bias_correction = bias,
      k_weight_decay = wd, k_inv_scale = inv_scale\<rparr>"

section \<open>\<^verbatim>\<open>FusedAdam.__init__\<close>\<close>

record defaults =
  d_lr :: pyval
  d_bias_correction :: bool
  d_betas :: "real \<times> real"
  d_eps :: real
  d_weight_decay :: real

fun init_lr :: "group list \<Rightarrow> error + group list" where
  \<comment> \<open>the loop over \<^verbatim>\<open>enumerate(self.param_groups)\<close> of the capturable case\<close>
  "init_lr [] = Inr []"
| "init_lr (g # gs) =
     (if g_params g = [] then
        (case init_lr gs of Inl e \<Rightarrow> Inl e | Inr gs' \<Rightarrow> Inr (g # gs'))
      else
        let device = t_device (p_data (hd (g_params g)));
            v = (if isinstance_float (g_lr g)
                 then PyTensor (torch_tensor (g_lr g) Float32 None) else g_lr g)
        in (case v of
              PyTensor t \<Rightarrow>
                (case init_lr gs of
                   Inl e \<Rightarrow> Inl e
                 | Inr gs' \<Rightarrow> Inr (g\<lparr>g_lr := PyTensor (to_device device t)\<rparr> # gs'))
            | _ \<Rightarrow> Inl (AttributeError ''to'')))"

definition FusedAdam_init ::
  "('ps \<Rightarrow> defaults \<Rightarrow> error + group list) \<Rightarrow> bool \<Rightarrow>
   'ps \<Rightarrow> pyval \<Rightarrow> bool \<Rightarrow> real \<times> real \<Rightarrow> real \<Rightarrow> bool \<Rightarrow> real \<Rightarrow> bool \<Rightarrow> bool \<Rightarrow> bool \<Rightarrow>
   error + optimizer" where
  \<comment> \<open>\<open>base_init\<close> is \<^verbatim>\<open>torch.optim.Optimizer.__init__\<close>, which builds the parameter groups
      from \<open>params\<close> and the defaults or raises; \<open>available\<close> is
      \<^verbatim>\<open>multi_tensor_applier.available\<close>\<close>
  "FusedAdam_init base_init available
     params lr bias_correction betas eps adam_w_mode_arg weight_decay amsgrad capturable_arg
     master_weights_arg =
     (if amsgrad then Inl (RuntimeError ''FusedAdam does not support the AMSGrad variant.'')
      else if master_weights_arg \<and> \<not> capturable_arg then
        Inl (RuntimeError
          ''Master weights is currently only supported with the capturable version.'')
      else
        let lr' = (if capturable_arg then PyTensor (torch_tensor lr Float32 None) else lr);
            dflt = \<lparr>d_lr = lr', d_bias_correction = bias_correction, d_betas = betas,
                    d_eps = eps, d_weight_decay = weight_decay\<rparr>
        in (case base_init params dflt of
              Inl e \<Rightarrow> Inl e
            | Inr groups \<Rightarrow>
                (case (if capturable_arg then init_lr groups else Inr groups) of
                   Inl e \<Rightarrow> Inl e
                 | Inr groups' \<Rightarrow>
                     if available then
                       Inr \<lparr>param_groups = groups', state = (\<lambda>p. None),
                            adam_w_mode = (if adam_w_mode_arg then 1 else 0),
                            capturable = capturable_arg, master_weights = master_weights_arg,
                            param_groups_master = None, dummy_overflow_buf = 0,
                            step_supports_amp_scaling = capturable_arg\<rparr>
                     else Inl (RuntimeError
                       ''apex.optimizers.FusedAdam requires cuda extensions''))))"

section \<open>\<^verbatim>\<open>FusedAdam.step\<close>\<close>

datatype pyobj = PyObj nat

definition make_master :: "bool \<Rightarrow> group list \<Rightarrow> tensor option list list" where
  \<comment> \<open>the full precision master weights, built when \<^verbatim>\<open>self.param_groups_master is None\<close>\<close>
  "make_master mw groups =
     map (\<lambda>pg. map (\<lambda>p. if mw then Some (float32 (detach (clone (p_data p)))) else None)
                   (g_params pg)) groups"

subsection \<open>The step counter and the learning rate of a group\<close>

fun as_step_tensor :: "device \<Rightarrow> pyval \<Rightarrow> tensor" where
  "as_step_tensor device (PyTensor t) = to_device device t"
| "as_step_tensor device v = torch_tensor v Int32 (Some device)"

fun as_lr_tensor :: "device \<Rightarrow> pyval \<Rightarrow> tensor" where
  "as_lr_tensor device (PyTensor t) = to_device device t"
| "as_lr_tensor device v = torch_tensor v Float32 (Some device)"

definition update_step :: "bool \<Rightarrow> device \<Rightarrow> int \<Rightarrow> group \<Rightarrow> error option \<times> group" where
  \<comment> \<open>\<open>buf\<close> is \<^verbatim>\<open>self._dummy_overflow_buf\<close> as the previous launch left it\<close>
  "update_step capt device buf grp =
     (case g_step grp of
        Some s \<Rightarrow>
          if capt then
            (let t = as_step_tensor device s
             in case iadd_flag t (if buf \<noteq> 1 then 1 else 0) of
                  Inl e \<Rightarrow> (Some e, grp\<lparr>g_step := Some (PyTensor t)\<rparr>)
                | Inr t' \<Rightarrow> (None, grp\<lparr>g_step := Some (PyTensor t')\<rparr>))
          else (None, grp\<lparr>g_step := Some (iadd_one s)\<rparr>)
      | None \<Rightarrow>
          (None, grp\<lparr>g_step := Some (if \<not> capt then PyInt 1
                                     else PyTensor (torch_tensor_list1 (PyInt 1) Int32 (Some device)))\<rparr>))"

definition update_lr :: "bool \<Rightarrow> device \<Rightarrow> group \<Rightarrow> group" where
  "update_lr capt device grp =
     (if capt then grp\<lparr>g_lr := PyTensor (as_lr_tensor device (g_lr grp))\<rparr> else grp)"

subsection \<open>Grouping the parameters by precision\<close>

record buckets =
  g_16 :: "tobj list"
  p_16 :: "tobj list"
  m_16 :: "tobj list"
  v_16 :: "tobj list"
  g_bf :: "tobj list"
  p_bf :: "tobj list"
  m_bf :: "tobj list"
  v_bf :: "tobj list"
  g_32 :: "tobj list"
  p_32 :: "tobj list"
  m_32 :: "tobj list"
  v_32 :: "tobj list"
  p_16_master :: "tobj list"
  p_32_master :: "tobj list"
  bf16_master :: "tobj list"

definition empty_buckets :: buckets where
  "empty_buckets =
     \<lparr>g_16 = [], p_16 = [], m_16 = [], v_16 = [], g_bf = [], p_bf = [], m_bf = [], v_bf = [],
      g_32 = [], p_32 = [], m_32 = [], v_32 = [],
      p_16_master = [], p_32_master = [], bf16_master = []\<rparr>"

definition init_state :: "param \<Rightarrow> state_dict" where
  \<comment> \<open>the two moments of a parameter seen for the first time\<close>
  "init_state p =
     (Map.empty(''exp_avg'' \<mapsto> float32 (zeros_like (detach (p_data p)))))
       (''exp_avg_sq'' \<mapsto> float32 (zeros_like (detach (p_data p))))"

definition master_entry :: "bool \<Rightarrow> param \<Rightarrow> tensor option \<Rightarrow> error + tobj list" where
  \<comment> \<open>\<^verbatim>\<open>if self.master_weights: ..._master.append(p_master.data)\<close>\<close>
  "master_entry mw p p_master =
     (if mw then
        (case p_master of
           None \<Rightarrow> Inl (AttributeError ''data'')
         | Some t \<Rightarrow> Inr [\<lparr>o_owner = p_id p, o_slot = Master, o_val = detach t\<rparr>])
      else Inr [])"

definition moments :: "param \<Rightarrow> state_dict \<Rightarrow> error + tobj \<times> tobj" where
  \<comment> \<open>\<^verbatim>\<open>state["exp_avg"]\<close> and \<^verbatim>\<open>state["exp_avg_sq"]\<close>, read in this order\<close>
  "moments p st =
     (case st ''exp_avg'' of
        None \<Rightarrow> Inl (KeyError ''exp_avg'')
      | Some m \<Rightarrow>
          (case st ''exp_avg_sq'' of
             None \<Rightarrow> Inl (KeyError ''exp_avg_sq'')
           | Some v \<Rightarrow> Inr (\<lparr>o_owner = p_id p, o_slot = ExpAvg, o_val = m\<rparr>,
                            \<lparr>o_owner = p_id p, o_slot = ExpAvgSq, o_val = v\<rparr>)))"

definition collect_param ::
  "bool \<Rightarrow> param \<Rightarrow> tensor option \<Rightarrow> opt_state \<Rightarrow> buckets \<Rightarrow> opt_state \<times> (error + buckets)" where
  \<comment> \<open>the body of \<^verbatim>\<open>for p, p_master in zip(group["params"], group_master["params"])\<close>\<close>
  "collect_param mw p p_master st bk =
     (case p_grad p of
        None \<Rightarrow> (st, Inr bk)
      | Some grad \<Rightarrow>
          if is_sparse (detach grad) then
            (st, Inl (RuntimeError
               ''FusedAdam does not support sparse gradients, please consider SparseAdam instead''))
          else
            let old = (case st (p_id p) of None \<Rightarrow> Map.empty | Some d \<Rightarrow> d);
                sd = (if old = Map.empty then init_state p else old);
                st' = st(p_id p \<mapsto> sd)
            in if t_dtype (p_data p) = Float16 then
                 (case master_entry mw p p_master of
                    Inl e \<Rightarrow> (st', Inl e)
                  | Inr ms \<Rightarrow>
                      (case moments p sd of
                         Inl e \<Rightarrow> (st', Inl e)
                       | Inr (m, v) \<Rightarrow>
                           (st', Inr (bk\<lparr>p_16_master := p_16_master bk @ ms,
                              g_16 := g_16 bk @ [\<lparr>o_owner = p_id p, o_slot = Grad, o_val = detach grad\<rparr>],
                              p_16 := p_16 bk @ [\<lparr>o_owner = p_id p, o_slot = Data, o_val = detach (p_data p)\<rparr>],
                              m_16 := m_16 bk @ [m],
                              v_16 := v_16 bk @ [v]\<rparr>))))
               else if t_dtype (p_data p) = BFloat16 then
                 (case master_entry mw p p_master of
                    Inl e \<Rightarrow> (st', Inl e)
                  | Inr ms \<Rightarrow>
                      (case moments p sd of
                         Inl e \<Rightarrow> (st', Inl e)
                       | Inr (m, v) \<Rightarrow>
                           (st', Inr (bk\<lparr>bf16_master := bf16_master bk @ ms,
                              g_bf := g_bf bk @ [\<lparr>o_owner = p_id p, o_slot = Grad, o_val = grad\<rparr>],
                              p_bf := p_bf bk @ [\<lparr>o_owner = p_id p, o_slot = Data, o_val = p_data p\<rparr>],
                              m_bf := m_bf bk @ [m],
                              v_bf := v_bf bk @ [v]\<rparr>))))
               else if t_dtype (p_data p) = Float32 then
                 (case master_entry mw p p_master of
                    Inl e \<Rightarrow> (st', Inl e)
                  | Inr ms \<Rightarrow>
                      (case moments p sd of
                         Inl e \<Rightarrow> (st', Inl e)
                       | Inr (m, v) \<Rightarrow>
                           (st', Inr (bk\<lparr>p_32_master := p_32_master bk @ ms,
                              g_32 := g_32 bk @ [\<lparr>o_owner = p_id p, o_slot = Grad, o_val = detach grad\<rparr>],
                              p_32 := p_32 bk @ [\<lparr>o_owner = p_id p, o_slot = Data, o_val = detach (p_data p)\<rparr>],
                              m_32 := m_32 bk @ [m],
                              v_32 := v_32 bk @ [v]\<rparr>))))
               else (st', Inl (RuntimeError ''FusedAdam only support fp16 and fp32.'')))"

fun collect ::
  "bool \<Rightarrow> param list \<Rightarrow> tensor option list \<Rightarrow> opt_state \<Rightarrow> buckets \<Rightarrow> opt_state \<times> (error + buckets)" where
  \<comment> \<open>the loop over \<^verbatim>\<open>zip(group["params"], group_master["params"])\<close>, which stops with
      the shorter list\<close>
  "collect mw (p # ps) (p_master # masters) st bk =
     (case collect_param mw p p_master st bk of
        (st', Inl e) \<Rightarrow> (st', Inl e)
      | (st', Inr bk') \<Rightarrow> collect mw ps masters st' bk')"
| "collect mw ps masters st bk = (st, Inr bk)"

subsection \<open>Launching the kernels\<close>

definition copy_overflow :: "tensor \<Rightarrow> error + int" where
  \<comment> \<open>\<^verbatim>\<open>self._dummy_overflow_buf.copy_(found_inf)\<close>: the source must broadcast to the
      shape \<open>[1]\<close> of the buffer and is converted to int32; the result is the new element\<close>
  "copy_overflow found_inf =
     (if t_shape found_inf = [] \<or> t_shape found_inf = [1] then
        (case t_vals found_inf of
           [x] \<Rightarrow> Inr (wrap_int 32 (trunc x))
         | _ \<Rightarrow> Inl (RuntimeError ''The size of tensor a must match the size of tensor b''))
      else Inl (RuntimeError ''The size of tensor a must match the size of tensor b''))"

definition check_found_inf :: "grad_scaler option \<Rightarrow> device \<Rightarrow> error + tensor" where
  "check_found_inf scaler device =
     (case scaler of
        Some gs \<Rightarrow>
          (case check_inf_per_device gs device of
             None \<Rightarrow> Inl (KeyError ''device'')
           | Some t \<Rightarrow> Inr t)
      | None \<Rightarrow> Inr (zeros1 device))"

definition unscale_factor :: "grad_scaler option \<Rightarrow> device \<Rightarrow> tensor" where
  \<comment> \<open>\<^verbatim>\<open>inv_scale\<close>\<close>
  "unscale_factor scaler device =
     (case scaler of
        Some gs \<Rightarrow> float32 (reciprocal (double (get_scale_async gs)))
      | None \<Rightarrow> ones1 device)"

definition dispatch ::
  "bool \<Rightarrow> bool \<Rightarrow> nat \<Rightarrow> grad_scaler option \<Rightarrow> device \<Rightarrow> nat \<Rightarrow> real \<Rightarrow> real \<Rightarrow> pyval \<Rightarrow> group \<Rightarrow>
   buckets \<Rightarrow> int \<Rightarrow> error + int \<times> kernel_call list" where
  \<comment> \<open>from \<^verbatim>\<open>if self.capturable:\<close> to the end of the loop body; \<open>stp\<close> is
      \<^verbatim>\<open>group["step"]\<close>. The result is the overflow buffer and the launches, in order.\<close>
  "dispatch capt mw mode scaler device bias_correction beta1 beta2 stp grp bk buf =
     (if capt then
        (case check_found_inf scaler device of
           Inl e \<Rightarrow> Inl e
         | Inr found_inf \<Rightarrow>
             (case copy_overflow found_inf of
                Inl e \<Rightarrow> Inl e
              | Inr buf' \<Rightarrow>
                  let inv_scale = unscale_factor scaler device
                  in Inr (buf',
                    (if length (g_16 bk) > 0 then
                       [multi_tensor_applier
                          (if mw then multi_tensor_adam_capturable_master
                           else multi_tensor_adam_capturable)
                          buf'
                          (if mw then [g_16 bk, p_16 bk, m_16 bk, v_16 bk, p_16_master bk]
                           else [g_16 bk, p_16 bk, m_16 bk, v_16 bk])
                          (g_lr grp) beta1 beta2 (g_eps grp) stp mode bias_correction
                          (g_weight_decay grp) (Some inv_scale)]
                     else []) @
                    (if length (g_bf bk) > 0 then
                       [multi_tensor_applier
                          (if mw then multi_tensor_adam_capturable_master
                           else multi_tensor_adam_capturable)
                          buf'
                          (if mw then [g_bf bk, p_bf bk, m_bf bk, v_bf bk, bf16_master bk]
                           else [g_bf bk, p_bf bk, m_bf bk, v_bf bk])
                          (g_lr grp) beta1 beta2 (g_eps grp) stp mode bias_correction
                          (g_weight_decay grp) (Some inv_scale)]
                     else []) @
                    (if length (g_32 bk) > 0 then
                       [multi_tensor_applier
                          (if mw then multi_tensor_adam_capturable_master
                           else multi_tensor_adam_capturable)
                          buf'
                          (if mw then [g_32 bk, p_32 bk, m_32 bk, v_32 bk, p_32_master bk]
                           else [g_32 bk, p_32 bk, m_32 bk, v_32 bk])
                          (g_lr grp) beta1 beta2 (g_eps grp) stp mode bias_correction
                          (g_weight_decay grp) (Some inv_scale)]
                     else []))))
      else
        Inr (buf,
          (if length (g_16 bk) > 0 then
             [multi_tensor_applier multi_tensor_adam buf [g_16 bk, p_16 bk, m_16 bk, v_16 bk]
                (g_lr grp) beta1 beta2 (g_eps grp) stp mode bias_correction
                (g_weight_decay grp) None]
           else []) @
          (if length (g_bf bk) > 0 then
             [multi_tensor_applier multi_tensor_adam buf [g_bf bk, p_bf bk, m_bf bk, v_bf bk]
                (g_lr grp) beta1 beta2 (g_eps grp) stp mode bias_correction
                (g_weight_decay grp) None]
           else []) @
          (if length (g_32 bk) > 0 then
             [multi_tensor_applier multi_tensor_adam buf [g_32 bk, p_32 bk, m_32 bk, v_32 bk]
                (g_lr grp) beta1 beta2 (g_eps grp) stp mode bias_correction
                (g_weight_decay grp) None]
           else [])))"

subsection \<open>One group, all groups, the step\<close>

text \<open>
  What the loop over the groups changes besides the group itself: \<^verbatim>\<open>self.state\<close>, the
  overflow buffer, and the launches made so far.
\<close>

record world =
  w_state :: opt_state
  w_buf :: int
  w_trace :: "kernel_call list"

definition step_group ::
  "bool \<Rightarrow> bool \<Rightarrow> nat \<Rightarrow> grad_scaler option \<Rightarrow> group \<Rightarrow> tensor option list \<Rightarrow> world \<Rightarrow>
   error option \<times> group \<times> world" where
  \<comment> \<open>the body of \<^verbatim>\<open>for group, group_master in zip(self.param_groups, self.param_groups_master)\<close>;
      an error leaves what was changed before it. The launches read \<^verbatim>\<open>group["step"]\<close>,
      which the body has set by then: the \<^verbatim>\<open>KeyError\<close> branch is never taken.\<close>
  "step_group capt mw mode scaler grp group_master w =
     (if length (g_params grp) = 0 then (None, grp, w)
      else
        let device = t_device (p_data (hd (g_params grp)));
            bias_correction = (if g_bias_correction grp = Some True then 1 else 0);
            beta1 = fst (g_betas grp);
            beta2 = snd (g_betas grp)
        in (case update_step capt device (w_buf w) grp of
              (Some e, grp1) \<Rightarrow> (Some e, grp1, w)
            | (None, grp1) \<Rightarrow>
                let grp2 = update_lr capt device grp1
                in (case collect mw (g_params grp2) group_master (w_state w) empty_buckets of
                      (st', Inl e) \<Rightarrow> (Some e, grp2, w\<lparr>w_state := st'\<rparr>)
                    | (st', Inr bk) \<Rightarrow>
                        (case g_step grp2 of
                           None \<Rightarrow> (Some (KeyError ''step''), grp2, w\<lparr>w_state := st'\<rparr>)
                         | Some stp \<Rightarrow>
                             (case dispatch capt mw mode scaler device bias_correction beta1 beta2
                                     stp grp2 bk (w_buf w) of
                                Inl e \<Rightarrow> (Some e, grp2, w\<lparr>w_state := st'\<rparr>)
                              | Inr (buf', calls) \<Rightarrow>
                                  (None, grp2,
                                   w\<lparr>w_state := st', w_buf := buf',
                                      w_trace := w_trace w @ calls\<rparr>))))))"

fun step_loop ::
  "bool \<Rightarrow> bool \<Rightarrow> nat \<Rightarrow> grad_scaler option \<Rightarrow> group list \<Rightarrow> tensor option list list \<Rightarrow> world \<Rightarrow>
   error option \<times> group list \<times> world" where
  \<comment> \<open>the loop over \<^verbatim>\<open>zip(self.param_groups, self.param_groups_master)\<close>: the groups past
      the shorter list are not visited\<close>
  "step_loop capt mw mode scaler (grp # groups) (group_master # masters) w =
     (case step_group capt mw mode scaler grp group_master w of
        (Some e, grp', w') \<Rightarrow> (Some e, grp' # groups, w')
      | (None, grp', w') \<Rightarrow>
          (case step_loop capt mw mode scaler groups masters w' of
             (r, groups', w'') \<Rightarrow> (r, grp' # groups', w'')))"
| "step_loop capt mw mode scaler groups masters w = (None, groups, w)"

definition run_closure ::
  "(optimizer \<Rightarrow> 'l \<times> optimizer) option \<Rightarrow> optimizer \<Rightarrow> 'l option \<times> optimizer" where
  \<comment> \<open>\<^verbatim>\<open>loss = None; if closure is not None: loss = closure()\<close>. The closure is user code
      that reevaluates the model: it returns the loss and leaves the optimizer and its
      parameters as it pleases.\<close>
  "run_closure closure self =
     (case closure of
        None \<Rightarrow> (None, self)
      | Some c \<Rightarrow> (case c self of (l, s) \<Rightarrow> (Some l, s)))"

definition ensure_master :: "optimizer \<Rightarrow> tensor option list list" where
  \<comment> \<open>\<^verbatim>\<open>self.param_groups_master\<close> after \<^verbatim>\<open>if self.param_groups_master is None: ...\<close>\<close>
  "ensure_master self =
     (case param_groups_master self of
        None \<Rightarrow> make_master (master_weights self) (param_groups self)
      | Some m \<Rightarrow> m)"

definition step ::
  "(optimizer \<Rightarrow> 'l \<times> optimizer) option \<Rightarrow> pyobj option \<Rightarrow> pyobj option \<Rightarrow> pyobj option \<Rightarrow>
   pyobj option \<Rightarrow> grad_scaler option \<Rightarrow> optimizer \<Rightarrow>
   (error + 'l option) \<times> optimizer \<times> kernel_call list" where
  \<comment> \<open>The result is what \<^verbatim>\<open>step\<close> returns or raises, the optimizer afterwards, and the
      native launches it made.\<close>
  "step closure grads output_params scale grad_norms scaler self =
     (if list_ex (\<lambda>p. p \<noteq> None) [grads, output_params, scale, grad_norms] then
        (Inl (RuntimeError
           (''FusedAdam has been updated. '' @
            ''Simply initialize it identically to torch.optim.Adam, and call step() with no arguments.'')),
         self, [])
      else
        (case run_closure closure self of
           (loss, self1) \<Rightarrow>
             let masters = ensure_master self1;
                 self2 = self1\<lparr>param_groups_master := Some masters\<rparr>
             in (case step_loop (capturable self2) (master_weights self2) (adam_w_mode self2)
                        scaler (param_groups self2) masters
                        \<lparr>w_state = state self2, w_buf = dummy_overflow_buf self2, w_trace = []\<rparr> of
                   (r, groups', w) \<Rightarrow>
                     ((case r of Some e \<Rightarrow> Inl e | None \<Rightarrow> Inr loss),
                      self2\<lparr>param_groups := groups', state := w_state w,
                            dummy_overflow_buf := w_buf w\<rparr>,
                      w_trace w))))"

section \<open>\<^verbatim>\<open>FusedAdam.load_state_dict\<close>\<close>

definition cuda :: "nat \<Rightarrow> tensor \<Rightarrow> tensor" where
  \<comment> \<open>\<^verbatim>\<open>t.cuda()\<close>, with the index of the current CUDA device\<close>
  "cuda cur t = to_device (CUDA cur) t"

fun as_cuda_lr :: "nat \<Rightarrow> pyval \<Rightarrow> tensor" where
  "as_cuda_lr cur (PyTensor t) = cuda cur t"
| "as_cuda_lr cur v = cuda cur (torch_tensor v Float32 None)"

fun as_cuda_step :: "nat \<Rightarrow> pyval \<Rightarrow> tensor" where
  "as_cuda_step cur (PyTensor t) = cuda cur t"
| "as_cuda_step cur v = cuda cur (torch_tensor_list1 v Int32 None)"

definition zeros_int1 :: tensor where
  \<comment> \<open>\<^verbatim>\<open>torch.zeros(1, dtype=torch.int32)\<close>\<close>
  "zeros_int1 = \<lparr>t_dtype = Int32, t_shape = [1], t_device = CPU, is_sparse = False,
                 requires_grad = False, t_vals = [0]\<rparr>"

definition load_step ::
  "bool \<Rightarrow> nat \<Rightarrow> nat \<Rightarrow> (tensor \<Rightarrow> tensor) \<Rightarrow> group \<Rightarrow> error + group" where
  \<comment> \<open>\<^verbatim>\<open>if "step" in group: ...\<close>; \<open>rank\<close> is \<^verbatim>\<open>distributed.get_rank()\<close> and
      \<open>broadcast t\<close> is what \<open>t\<close> holds after \<^verbatim>\<open>distributed.broadcast(t, 0)\<close>\<close>
  "load_step capt cur rank broadcast grp =
     (case g_step grp of
        None \<Rightarrow> Inr grp
      | Some s \<Rightarrow>
          if capt then
            (let stp = (if rank = 0 then as_cuda_step cur s else cuda cur zeros_int1)
             in Inr (grp\<lparr>g_step := Some (PyTensor (broadcast stp))\<rparr>))
          else
            (case s of
               PyTensor t \<Rightarrow>
                 (case item t of
                    Inl e \<Rightarrow> Inl e
                  | Inr n \<Rightarrow> Inr (grp\<lparr>g_step := Some n\<rparr>))
             | _ \<Rightarrow> Inr grp))"

fun load_moments :: "param list \<Rightarrow> opt_state \<Rightarrow> error + opt_state" where
  \<comment> \<open>\<^verbatim>\<open>for p in group["params"]\<close>; reading \<^verbatim>\<open>self.state[p]\<close> files an empty dict
      for a parameter that has none\<close>
  "load_moments [] st = Inr st"
| "load_moments (p # ps) st =
     (let sd = (case st (p_id p) of None \<Rightarrow> Map.empty | Some d \<Rightarrow> d)
      in case sd ''exp_avg'' of
           None \<Rightarrow> load_moments ps (st(p_id p \<mapsto> sd))
         | Some m \<Rightarrow>
             (case (sd(''exp_avg'' \<mapsto> float32 m)) ''exp_avg_sq'' of
                None \<Rightarrow> Inl (KeyError ''exp_avg_sq'')
              | Some v \<Rightarrow>
                  load_moments ps
                    (st(p_id p \<mapsto> (sd(''exp_avg'' \<mapsto> float32 m))(''exp_avg_sq'' \<mapsto> float32 v)))))"

fun load_groups ::
  "bool \<Rightarrow> nat \<Rightarrow> nat \<Rightarrow> (tensor \<Rightarrow> tensor) \<Rightarrow> group list \<Rightarrow> opt_state \<Rightarrow>
   error + group list \<times> opt_state" where
  \<comment> \<open>\<^verbatim>\<open>for group in self.param_groups\<close>\<close>
  "load_groups capt cur rank broadcast [] st = Inr ([], st)"
| "load_groups capt cur rank broadcast (grp # groups) st =
     (let grp1 = (if capt then grp\<lparr>g_lr := PyTensor (as_cuda_lr cur (g_lr grp))\<rparr> else grp)
      in case load_step capt cur rank broadcast grp1 of
           Inl e \<Rightarrow> Inl e
         | Inr grp2 \<Rightarrow>
             (case load_moments (g_params grp2) st of
                Inl e \<Rightarrow> Inl e
              | Inr st' \<Rightarrow>
                  (case load_groups capt cur rank broadcast groups st' of
                     Inl e \<Rightarrow> Inl e
                   | Inr (groups', st'') \<Rightarrow> Inr (grp2 # groups', st''))))"

definition load_state_dict ::
  "(optimizer \<Rightarrow> 'sd \<Rightarrow> error + optimizer) \<Rightarrow> nat \<Rightarrow> nat \<Rightarrow> (tensor \<Rightarrow> tensor) \<Rightarrow>
   optimizer \<Rightarrow> 'sd \<Rightarrow> error + optimizer" where
  \<comment> \<open>\<open>base_load\<close> is \<^verbatim>\<open>torch.optim.Optimizer.load_state_dict\<close>: the optimizer with the
      groups and the state of the dict, or an error\<close>
  "load_state_dict base_load cur rank broadcast self state_dict =
     (case base_load self state_dict of
        Inl e \<Rightarrow> Inl e
      | Inr self1 \<Rightarrow>
          (case load_groups (capturable self1) cur rank broadcast (param_groups self1)
                  (state self1) of
             Inl e \<Rightarrow> Inl e
           | Inr (groups', st') \<Rightarrow> Inr (self1\<lparr>param_groups := groups', state := st'\<rparr>)))"

section \<open>Notions used in the statements\<close>

definition bucket_objs :: "buckets \<Rightarrow> tobj set" where
  \<comment> \<open>every tensor some list of the group holds\<close>
  "bucket_objs bk =
     set (g_16 bk) \<union> set (p_16 bk) \<union> set (m_16 bk) \<union> set (v_16 bk) \<union>
     set (g_bf bk) \<union> set (p_bf bk) \<union> set (m_bf bk) \<union> set (v_bf bk) \<union>
     set (g_32 bk) \<union> set (p_32 bk) \<union> set (m_32 bk) \<union> set (v_32 bk) \<union>
     set (p_16_master bk) \<union> set (p_32_master bk) \<union> set (bf16_master bk)"

definition visited_params :: "group list \<Rightarrow> tensor option list list \<Rightarrow> param list" where
  \<comment> \<open>the parameters the two \<^verbatim>\<open>zip\<close> loops of \<^verbatim>\<open>step\<close> reach, in order\<close>
  "visited_params groups masters =
     concat (map (\<lambda>(grp, group_master). take (length group_master) (g_params grp))
                 (zip groups masters))"

definition launch_ok :: "bool \<Rightarrow> bool \<Rightarrow> param list \<Rightarrow> kernel_call \<Rightarrow> bool" where
  \<comment> \<open>a launch with the entry point of the flags, a first list that is not empty, and only
      tensors of parameters of \<open>ps\<close> that have a gradient\<close>
  "launch_ok capt mw ps c \<longleftrightarrow>
     k_entry c = (if capt then (if mw then multi_tensor_adam_capturable_master
                                  else multi_tensor_adam_capturable)
                  else multi_tensor_adam) \<and>
     hd (k_lists c) \<noteq> [] \<and>
     (\<forall>l \<in> set (k_lists c). \<forall>x \<in> set l.
        \<exists>p \<in> set ps. p_grad p \<noteq> None \<and> o_owner x = p_id p)"

definition moments_float32 :: "state_dict \<Rightarrow> bool" where
  \<comment> \<open>a state dict whose \<^verbatim>\<open>"exp_avg"\<close>, if it has one, comes with \<^verbatim>\<open>"exp_avg_sq"\<close>, both float32\<close>
  "moments_float32 d \<longleftrightarrow>
     (\<forall>m. d ''exp_avg'' = Some m \<longrightarrow>
        t_dtype m = Float32 \<and> (\<exists>v. d ''exp_avg_sq'' = Some v \<and> t_dtype v = Float32))"

section \<open>Example objects\<close>

text \<open>
  A small optimizer on which the theorems below are instantiated: one group with a
  float32 parameter, a float16 parameter and a parameter without gradient; a closure, a
  scaler that reports an overflow, a float64 parameter, and an optimizer as a checkpoint
  leaves it, with float16 moments and a tensor as step counter.
\<close>

definition demo_w32 :: tensor where
  "demo_w32 = \<lparr>t_dtype = Float32, t_shape = [2], t_device = CUDA 0, is_sparse = False,
               requires_grad = True, t_vals = [1, 2]\<rparr>"

definition demo_w16 :: tensor where
  "demo_w16 = \<lparr>t_dtype = Float16, t_shape = [1], t_device = CUDA 0, is_sparse = False,
               requires_grad = True, t_vals = [3]\<rparr>"

definition demo_grad :: "dtype \<Rightarrow> real list \<Rightarrow> tensor" where
  "demo_grad d xs = \<lparr>t_dtype = d, t_shape = [length xs], t_device = CUDA 0, is_sparse = False,
                     requires_grad = False, t_vals = xs\<rparr>"

definition demo_p32 :: param where
  "demo_p32 = \<lparr>p_id = 0, p_data = demo_w32, p_grad = Some (demo_grad Float32 [1 / 2, 1 / 4])\<rparr>"

definition demo_p16 :: param where
  "demo_p16 = \<lparr>p_id = 1, p_data = demo_w16, p_grad = Some (demo_grad Float16 [1])\<rparr>"

definition demo_frozen :: param where
  "demo_frozen = \<lparr>p_id = 2, p_data = demo_w32, p_grad = None\<rparr>"

definition demo_group :: group where
  "demo_group =
     \<lparr>g_params = [demo_p32, demo_p16, demo_frozen], g_lr = PyFloat (1 / 1000),
      g_bias_correction = Some True, g_betas = (9 / 10, 999 / 1000), g_eps = 1 / 100000000,
      g_weight_decay = 0, g_step = None\<rparr>"

definition demo_opt :: optimizer where
  "demo_opt =
     \<lparr>param_groups = [demo_group], state = (\<lambda>p. None), adam_w_mode = 1, capturable = False,
      master_weights = False, param_groups_master = None, dummy_overflow_buf = 0,
      step_supports_amp_scaling = False\<rparr>"

definition demo_closure :: "optimizer \<Rightarrow> real \<times> optimizer" where
  "demo_closure self = (5, self\<lparr>dummy_overflow_buf := 7\<rparr>)"

definition demo_base_init :: "param list \<Rightarrow> defaults \<Rightarrow> error + group list" where
  "demo_base_init ps d =
     Inr [\<lparr>g_params = ps, g_lr = d_lr d, g_bias_correction = Some (d_bias_correction d),
           g_betas = d_betas d, g_eps = d_eps d, g_weight_decay = d_weight_decay d,
           g_step = None\<rparr>]"


definition demo_step_tensor :: tensor where
  "demo_step_tensor = \<lparr>t_dtype = Int32, t_shape = [1], t_device = CPU, is_sparse = False,
                        requires_grad = False, t_vals = [5]\<rparr>"



definition demo_loaded :: optimizer where
  "demo_loaded =
     demo_opt\<lparr>param_groups := [demo_group\<lparr>g_step := Some (PyTensor demo_step_tensor)\<rparr>],
              state := (\<lambda>p. None)(0 \<mapsto> [''exp_avg'' \<mapsto> demo_grad Float16 [0, 0],
                                          ''exp_avg_sq'' \<mapsto> demo_grad Float16 [0, 0]])\<rparr>"

section \<open>Facts about the model\<close>

lemmas demo_defs =
  demo_w32_def demo_w16_def demo_grad_def demo_p32_def demo_p16_def demo_frozen_def
  demo_group_def demo_opt_def

lemma cast_float [simp]:
  "cast Float32 = (\<lambda>x. x)" "cast Float64 = (\<lambda>x. x)" "cast Float16 = (\<lambda>x. x)" "cast BFloat16 = (\<lambda>x. x)"
  by (rule ext, simp add: cast_def)+

lemma float32_detach_clone: "float32 (detach (clone t)) = t\<lparr>t_dtype := Float32, requires_grad := False\<rparr>"
  by (simp add: float32_def detach_def clone_def to_dtype_def)

lemma update_lr_fields [simp]:
  "g_step (update_lr capt device grp) = g_step grp"
  "g_params (update_lr capt device grp) = g_params grp"
  by (simp_all add: update_lr_def)

lemma update_step_params [simp]:
  "g_params (snd (update_step capt device buf grp)) = g_params grp"
  by (simp add: update_step_def Let_def split: option.splits sum.splits)



lemma init_state_nonempty: "init_state p \<noteq> Map.empty"
  by (simp add: init_state_def)

lemma collect_param_no_grad: "p_grad p = None \<Longrightarrow> collect_param mw p pm st bk = (st, Inr bk)"
  by (simp add: collect_param_def)

lemma collect_param_state:
  "fst (collect_param mw p pm st bk) =
     (case p_grad p of
        None \<Rightarrow> st
      | Some g \<Rightarrow>
          if is_sparse g then st
          else if st (p_id p) = None \<or> st (p_id p) = Some Map.empty
               then st(p_id p \<mapsto> init_state p) else st)"
  by (auto simp: collect_param_def Let_def detach_def fun_upd_idem
           split: option.splits sum.splits prod.splits)

lemma collect_param_state_cases:
  assumes "collect_param mw p pm st bk = (st', r)"
  shows "st' q = st q \<or>
         ((st q = None \<or> st q = Some Map.empty) \<and> p_id p = q \<and> p_grad p \<noteq> None \<and>
          st' q = Some (init_state p))"
proof -
  have "st' = fst (collect_param mw p pm st bk)" using assms by simp
  then show ?thesis
    unfolding collect_param_state by (auto split: option.splits if_splits)
qed

lemma moments_Inr:
  "moments p sd = Inr (m, v) \<Longrightarrow>
     (\<exists>a b. sd ''exp_avg'' = Some a \<and> sd ''exp_avg_sq'' = Some b \<and>
        m = \<lparr>o_owner = p_id p, o_slot = ExpAvg, o_val = a\<rparr> \<and>
        v = \<lparr>o_owner = p_id p, o_slot = ExpAvgSq, o_val = b\<rparr>)"
  by (auto simp: moments_def split: option.splits)

lemma master_entry_owner:
  "master_entry mw p pm = Inr ms \<Longrightarrow> x \<in> set ms \<Longrightarrow> o_owner x = p_id p"
  by (auto simp: master_entry_def split: if_splits option.splits)


lemma collect_param_objs:
  assumes "collect_param mw p pm st bk = (st', Inr bk')" and "x \<in> bucket_objs bk'"
  shows "x \<in> bucket_objs bk \<or> (p_grad p \<noteq> None \<and> o_owner x = p_id p)"
  using assms
  by (auto simp: collect_param_def Let_def bucket_objs_def
           split: option.splits sum.splits prod.splits if_splits
           dest!: moments_Inr dest: master_entry_owner)

lemma collect_state_cases:
  "collect mw ps ms st bk = (st', r) \<Longrightarrow>
     st' q = st q \<or>
     ((st q = None \<or> st q = Some Map.empty) \<and>
      (\<exists>p \<in> set (take (length ms) ps). p_id p = q \<and> p_grad p \<noteq> None \<and>
         st' q = Some (init_state p)))"
proof (induction mw ps ms st bk rule: collect.induct)
  case (1 mw p ps p_master masters st bk)
  obtain st1 r1 where cp: "collect_param mw p p_master st bk = (st1, r1)"
    by (cases "collect_param mw p p_master st bk")
  note one = collect_param_state_cases [OF cp, of q]
  show ?case
  proof (cases r1)
    case (Inl e)
    with cp "1.prems" have "st' = st1" by simp
    with one show ?thesis by auto
  next
    case (Inr bk1)
    with cp "1.prems" have rest: "collect mw ps masters st1 bk1 = (st', r)" by simp
    from "1.IH" [OF _ _ rest] cp Inr
    have two: "st' q = st1 q \<or>
       ((st1 q = None \<or> st1 q = Some Map.empty) \<and>
        (\<exists>p \<in> set (take (length masters) ps). p_id p = q \<and> p_grad p \<noteq> None \<and>
           st' q = Some (init_state p)))"
      by simp
    from one two show ?thesis
      using init_state_nonempty by (auto split: if_splits)
  qed
qed simp_all



lemma collect_objs:
  "collect mw ps ms st bk = (st', Inr bk') \<Longrightarrow> x \<in> bucket_objs bk' \<Longrightarrow>
     x \<in> bucket_objs bk \<or>
     (\<exists>p \<in> set (take (length ms) ps). p_grad p \<noteq> None \<and> o_owner x = p_id p)"
proof (induction mw ps ms st bk rule: collect.induct)
  case (1 mw p0 ps p_master masters st bk)
  obtain st1 r1 where cp: "collect_param mw p0 p_master st bk = (st1, r1)"
    by (cases "collect_param mw p0 p_master st bk")
  from cp "1.prems"(1) obtain bk1 where r1: "r1 = Inr bk1"
    by (cases r1) auto
  with cp "1.prems"(1) have rest: "collect mw ps masters st1 bk1 = (st', Inr bk')" by simp
  from "1.IH" [OF _ _ rest "1.prems"(2)] cp r1
  have "x \<in> bucket_objs bk1 \<or>
     (\<exists>p \<in> set (take (length masters) ps). p_grad p \<noteq> None \<and> o_owner x = p_id p)"
    by simp
  then show ?case
  proof
    assume "x \<in> bucket_objs bk1"
    from collect_param_objs [OF cp [unfolded r1] this] show ?thesis by auto
  next
    assume "\<exists>p \<in> set (take (length masters) ps). p_grad p \<noteq> None \<and> o_owner x = p_id p"
    then show ?thesis by auto
  qed
qed simp_all

lemma bucket_objs_empty [simp]: "bucket_objs empty_buckets = {}"
  by (simp add: bucket_objs_def empty_buckets_def)

lemma dispatch_lists:
  assumes "dispatch capt mw mode scaler device bias beta1 beta2 stp grp bk buf = Inr (buf', calls)"
    and "c \<in> set calls" and "l \<in> set (k_lists c)"
  shows "set l \<subseteq> bucket_objs bk"
  using assms unfolding dispatch_def
  by (auto simp: Let_def multi_tensor_applier_def bucket_objs_def
           split: if_splits sum.splits)

lemma visited_params_simps [simp]:
  "visited_params [] ms = []"
  "visited_params gs [] = []"
  "visited_params (g # gs) (m # ms) = take (length m) (g_params g) @ visited_params gs ms"
  by (simp_all add: visited_params_def)

lemma dispatch_entry:
  assumes "dispatch capt mw mode scaler device bias beta1 beta2 stp grp bk buf = Inr (buf', calls)"
    and "c \<in> set calls"
  shows "k_entry c = (if capt then (if mw then multi_tensor_adam_capturable_master
                                    else multi_tensor_adam_capturable)
                      else multi_tensor_adam) \<and> hd (k_lists c) \<noteq> []"
  using assms unfolding dispatch_def
  by (auto simp: Let_def multi_tensor_applier_def split: if_splits sum.splits)

lemma update_step_paramsD:
  "update_step capt device buf grp = (e, grp1) \<Longrightarrow> g_params grp1 = g_params grp"
  using update_step_params [of capt device buf grp] by simp

lemma step_group_params:
  "step_group capt mw mode scaler grp gm w = (r, grp', w') \<Longrightarrow> g_params grp' = g_params grp"
  unfolding step_group_def
  by (auto simp: Let_def split: if_splits prod.splits sum.splits option.splits
           dest: arg_cong [where f = "\<lambda>x. g_params (snd x)"])

lemma step_group_cases:
  assumes "step_group capt mw mode scaler grp gm w = (r, grp', w')"
  shows "(w' = w \<and> (r \<noteq> None \<or> g_params grp = [])) \<or>
         (\<exists>st' res. collect mw (g_params grp) gm (w_state w) empty_buckets = (st', res) \<and>
            ((r \<noteq> None \<and> w' = w\<lparr>w_state := st'\<rparr>) \<or>
             (\<exists>bk device bias beta1 beta2 stp grp2 buf' calls.
                r = None \<and> res = Inr bk \<and>
                dispatch capt mw mode scaler device bias beta1 beta2 stp grp2 bk (w_buf w) =
                  Inr (buf', calls) \<and>
                w' = w\<lparr>w_state := st', w_buf := buf', w_trace := w_trace w @ calls\<rparr>)))"
  using assms unfolding step_group_def
  apply (auto simp: Let_def split: if_splits prod.splits sum.splits option.splits
           dest!: update_step_paramsD)
   apply blast+
  done

lemma step_group_state_cases:
  assumes "step_group capt mw mode scaler grp gm w = (r, grp', w')"
  shows "w_state w' q = w_state w q \<or>
     ((w_state w q = None \<or> w_state w q = Some Map.empty) \<and>
      (\<exists>p \<in> set (take (length gm) (g_params grp)). p_id p = q \<and> p_grad p \<noteq> None \<and>
         w_state w' q = Some (init_state p)))"
proof -
  from step_group_cases [OF assms]
  consider "w_state w' = w_state w"
    | st' res where "collect mw (g_params grp) gm (w_state w) empty_buckets = (st', res)"
        "w_state w' = st'"
    by (elim disjE exE conjE) auto
  then show ?thesis
  proof cases
    case 1
    then show ?thesis by simp
  next
    case 2
    from collect_state_cases [OF 2(1), of q] 2(2) show ?thesis by simp
  qed
qed


lemma step_group_trace:
  assumes "step_group capt mw mode scaler grp gm w = (r, grp', w')"
    and "c \<in> set (w_trace w')"
  shows "c \<in> set (w_trace w) \<or>
     (k_entry c = (if capt then (if mw then multi_tensor_adam_capturable_master
                                  else multi_tensor_adam_capturable)
                   else multi_tensor_adam) \<and>
      hd (k_lists c) \<noteq> [] \<and>
      (\<forall>l \<in> set (k_lists c). \<forall>x \<in> set l.
         \<exists>p \<in> set (take (length gm) (g_params grp)). p_grad p \<noteq> None \<and> o_owner x = p_id p))"
proof -
  from step_group_cases [OF assms(1)]
  consider "w_trace w' = w_trace w"
    | st' bk device bias beta1 beta2 stp grp2 buf' calls where
        "collect mw (g_params grp) gm (w_state w) empty_buckets = (st', Inr bk)"
        "dispatch capt mw mode scaler device bias beta1 beta2 stp grp2 bk (w_buf w) = Inr (buf', calls)"
        "w_trace w' = w_trace w @ calls"
    by (elim disjE exE conjE) auto
  then show ?thesis
  proof cases
    case 1
    with assms(2) show ?thesis by simp
  next
    case 2
    show ?thesis
    proof (cases "c \<in> set (w_trace w)")
      case True then show ?thesis by simp
    next
      case False
      with assms(2) 2(3) have c: "c \<in> set calls" by auto
      have "\<exists>p \<in> set (take (length gm) (g_params grp)). p_grad p \<noteq> None \<and> o_owner x = p_id p"
        if "l \<in> set (k_lists c)" "x \<in> set l" for l x
      proof -
        from dispatch_lists [OF 2(2) c that(1)] that(2) have "x \<in> bucket_objs bk" by auto
        from collect_objs [OF 2(1) this] show ?thesis by simp
      qed
      with dispatch_entry [OF 2(2) c] show ?thesis by blast
    qed
  qed
qed

lemma step_loop_params:
  "step_loop capt mw mode scaler gs ms w = (r, gs', w') \<Longrightarrow> map g_params gs' = map g_params gs"
proof (induction capt mw mode scaler gs ms w arbitrary: r gs' w' rule: step_loop.induct)
  case (1 capt mw mode scaler grp groups group_master masters w)
  obtain r1 grp1 w1 where sg: "step_group capt mw mode scaler grp group_master w = (r1, grp1, w1)"
    by (cases "step_group capt mw mode scaler grp group_master w")
  note p1 = step_group_params [OF sg]
  show ?case
  proof (cases r1)
    case (Some e)
    with sg "1.prems" p1 show ?thesis by auto
  next
    case None
    obtain r2 gs2 w2 where sl: "step_loop capt mw mode scaler groups masters w1 = (r2, gs2, w2)"
      by (cases "step_loop capt mw mode scaler groups masters w1")
    from "1.IH" [OF _ _ _ sl] sg None have "map g_params gs2 = map g_params groups" by simp
    with sg None sl "1.prems" p1 show ?thesis by auto
  qed
qed simp_all

lemma step_loop_state_cases:
  "step_loop capt mw mode scaler gs ms w = (r, gs', w') \<Longrightarrow>
     w_state w' q = w_state w q \<or>
     ((w_state w q = None \<or> w_state w q = Some Map.empty) \<and>
      (\<exists>p \<in> set (visited_params gs ms). p_id p = q \<and> p_grad p \<noteq> None \<and>
         w_state w' q = Some (init_state p)))"
proof (induction capt mw mode scaler gs ms w arbitrary: r gs' w' rule: step_loop.induct)
  case (1 capt mw mode scaler grp groups group_master masters w)
  obtain r1 grp1 w1 where sg: "step_group capt mw mode scaler grp group_master w = (r1, grp1, w1)"
    by (cases "step_group capt mw mode scaler grp group_master w")
  note one = step_group_state_cases [OF sg, of q]
  show ?case
  proof (cases r1)
    case (Some e)
    with sg "1.prems" have "w' = w1" by simp
    with one show ?thesis by auto
  next
    case None
    obtain r2 gs2 w2 where sl: "step_loop capt mw mode scaler groups masters w1 = (r2, gs2, w2)"
      by (cases "step_loop capt mw mode scaler groups masters w1")
    with sg None "1.prems" have w': "w' = w2" by simp
    from "1.IH" [OF _ _ _ sl] sg None
    have two: "w_state w2 q = w_state w1 q \<or>
       ((w_state w1 q = None \<or> w_state w1 q = Some Map.empty) \<and>
        (\<exists>p \<in> set (visited_params groups masters). p_id p = q \<and> p_grad p \<noteq> None \<and>
           w_state w2 q = Some (init_state p)))"
      by simp
    from one two show ?thesis
      unfolding w' using init_state_nonempty by (auto split: if_splits)
  qed
qed simp_all



lemma launch_ok_mono:
  "launch_ok capt mw ps c \<Longrightarrow> set ps \<subseteq> set ps' \<Longrightarrow> launch_ok capt mw ps' c"
  unfolding launch_ok_def by blast

lemma launch_ok_append:
  "launch_ok capt mw ps c \<Longrightarrow> launch_ok capt mw (ps @ qs) c"
  "launch_ok capt mw qs c \<Longrightarrow> launch_ok capt mw (ps @ qs) c"
  by (erule launch_ok_mono, simp)+

lemma step_group_launch_ok:
  assumes "step_group capt mw mode scaler grp gm w = (r, grp', w')"
    and "c \<in> set (w_trace w')"
  shows "c \<in> set (w_trace w) \<or> launch_ok capt mw (take (length gm) (g_params grp)) c"
  using step_group_trace [OF assms] unfolding launch_ok_def by simp

lemma step_loop_trace:
  "step_loop capt mw mode scaler gs ms w = (r, gs', w') \<Longrightarrow> c \<in> set (w_trace w') \<Longrightarrow>
     c \<in> set (w_trace w) \<or> launch_ok capt mw (visited_params gs ms) c"
proof (induction capt mw mode scaler gs ms w arbitrary: r gs' w' rule: step_loop.induct)
  case (1 capt mw mode scaler grp groups group_master masters w)
  obtain r1 grp1 w1 where sg: "step_group capt mw mode scaler grp group_master w = (r1, grp1, w1)"
    by (cases "step_group capt mw mode scaler grp group_master w")
  have here: "c \<in> set (w_trace w) \<or>
      launch_ok capt mw (visited_params (grp # groups) (group_master # masters)) c"
    if "c \<in> set (w_trace w1)"
    using step_group_launch_ok [OF sg that] by (auto intro: launch_ok_append)
  show ?case
  proof (cases r1)
    case (Some e)
    with sg "1.prems" have "w' = w1" by simp
    with "1.prems"(2) here show ?thesis by simp
  next
    case None
    obtain r2 gs2 w2 where sl: "step_loop capt mw mode scaler groups masters w1 = (r2, gs2, w2)"
      by (cases "step_loop capt mw mode scaler groups masters w1")
    with sg None "1.prems" have w': "w' = w2" by simp
    from "1.IH" [OF _ _ _ sl] sg None "1.prems"(2) w'
    have "c \<in> set (w_trace w1) \<or> launch_ok capt mw (visited_params groups masters) c"
      by simp
    with here show ?thesis by (auto intro: launch_ok_append)
  qed
qed simp_all

lemma visited_params_subset:
  "p \<in> set (visited_params gs ms) \<Longrightarrow> \<exists>grp \<in> set gs. p \<in> set (g_params grp)"
proof (induction gs arbitrary: ms)
  case Nil
  then show ?case by simp
next
  case (Cons g gs)
  then show ?case
    by (cases ms) (auto dest: in_set_takeD)
qed


lemma step_loop_of_step:
  assumes "run_closure closure self = (loss, self1)"
    and "step closure None None None None scaler self = (res, self', tr)"
  obtains r gs' w where
    "step_loop (capturable self1) (master_weights self1) (adam_w_mode self1) scaler
       (param_groups self1) (ensure_master self1)
       \<lparr>w_state = state self1, w_buf = dummy_overflow_buf self1, w_trace = []\<rparr> = (r, gs', w)"
    "res = (case r of Some e \<Rightarrow> Inl e | None \<Rightarrow> Inr loss)"
    "self' = self1\<lparr>param_groups_master := Some (ensure_master self1), param_groups := gs',
                   state := w_state w, dummy_overflow_buf := w_buf w\<rparr>"
    "tr = w_trace w"
  using assms unfolding step_def
  by (auto simp: Let_def split: prod.splits)



lemma step_master_weights:
  assumes "run_closure closure self = (loss, self1)"
    and "step closure None None None None scaler self = (res, self', tr)"
  shows "(param_groups_master self1 = None \<longrightarrow>
            param_groups_master self' =
              Some (map (\<lambda>grp. map (\<lambda>p. if master_weights self1
                                           then Some ((p_data p)\<lparr>t_dtype := Float32,
                                                                  requires_grad := False\<rparr>)
                                           else None) (g_params grp))
                        (param_groups self1))) \<and>
         (\<forall>m. param_groups_master self1 = Some m \<longrightarrow> param_groups_master self' = Some m)"
proof -
  from assms obtain r gs' w where
    "step_loop (capturable self1) (master_weights self1) (adam_w_mode self1) scaler
       (param_groups self1) (ensure_master self1)
       \<lparr>w_state = state self1, w_buf = dummy_overflow_buf self1, w_trace = []\<rparr> = (r, gs', w)"
    "res = (case r of Some e \<Rightarrow> Inl e | None \<Rightarrow> Inr loss)"
    "self' = self1\<lparr>param_groups_master := Some (ensure_master self1), param_groups := gs',
                   state := w_state w, dummy_overflow_buf := w_buf w\<rparr>"
    "tr = w_trace w"
    by (rule step_loop_of_step)
  then have "param_groups_master self' = Some (ensure_master self1)" by simp
  then show ?thesis
    by (auto simp: ensure_master_def make_master_def float32_detach_clone)
qed




lemma trunc_of_int [simp]: "trunc (of_int n) = n"
  by (simp add: trunc_def)






lemma float32_dtype [simp]: "t_dtype (float32 t) = Float32"
  by (simp add: float32_def to_dtype_def)

lemma load_moments_ok:
  "load_moments ps st = Inr st' \<Longrightarrow>
   (\<forall>q \<in> Q. \<forall>d. st q = Some d \<longrightarrow> moments_float32 d) \<Longrightarrow>
   (\<forall>q \<in> Q \<union> p_id ` set ps. \<forall>d. st' q = Some d \<longrightarrow> moments_float32 d)"
proof (induction ps arbitrary: st Q)
  case Nil
  then show ?case by simp
next
  case (Cons p ps)
  define sd where "sd = (case st (p_id p) of None \<Rightarrow> Map.empty | Some d \<Rightarrow> d)"
  show ?case
  proof (cases "sd ''exp_avg''")
    case None
    with Cons.prems(1) have rest: "load_moments ps (st(p_id p \<mapsto> sd)) = Inr st'"
      by (simp add: sd_def Let_def)
    have "\<forall>q \<in> insert (p_id p) Q. \<forall>d. (st(p_id p \<mapsto> sd)) q = Some d \<longrightarrow> moments_float32 d"
      using Cons.prems(2) None by (auto simp: moments_float32_def)
    from Cons.IH [OF rest this] show ?thesis by auto
  next
    case (Some m)
    with Cons.prems(1) obtain v where v: "sd ''exp_avg_sq'' = Some v"
      and rest: "load_moments ps
          (st(p_id p \<mapsto> (sd(''exp_avg'' \<mapsto> float32 m))(''exp_avg_sq'' \<mapsto> float32 v))) = Inr st'"
      by (auto simp: sd_def Let_def split: option.splits)
    have "\<forall>q \<in> insert (p_id p) Q. \<forall>d.
            (st(p_id p \<mapsto> (sd(''exp_avg'' \<mapsto> float32 m))(''exp_avg_sq'' \<mapsto> float32 v))) q = Some d \<longrightarrow>
            moments_float32 d"
      using Cons.prems(2) by (auto simp: moments_float32_def)
    from Cons.IH [OF rest this] show ?thesis by auto
  qed
qed

lemma load_step_params:
  "load_step capt cur rank broadcast grp = Inr grp' \<Longrightarrow> g_params grp' = g_params grp"
  by (auto simp: load_step_def Let_def split: option.splits if_splits pyval.splits sum.splits)

lemma load_groups_ok:
  "load_groups capt cur rank broadcast gs st = Inr (gs', st') \<Longrightarrow>
   (\<forall>q \<in> Q. \<forall>d. st q = Some d \<longrightarrow> moments_float32 d) \<Longrightarrow>
   map g_params gs' = map g_params gs \<and>
   (\<forall>q \<in> Q \<union> p_id ` (\<Union>grp \<in> set gs. set (g_params grp)). \<forall>d. st' q = Some d \<longrightarrow> moments_float32 d)"
proof (induction gs arbitrary: st Q gs')
  case Nil
  then show ?case by simp
next
  case (Cons grp gs)
  define grp1 where "grp1 = (if capt then grp\<lparr>g_lr := PyTensor (as_cuda_lr cur (g_lr grp))\<rparr> else grp)"
  from Cons.prems(1) obtain grp2 st1 gs2 where
    ls: "load_step capt cur rank broadcast grp1 = Inr grp2"
    and lm: "load_moments (g_params grp2) st = Inr st1"
    and lg: "load_groups capt cur rank broadcast gs st1 = Inr (gs2, st')"
    and gs': "gs' = grp2 # gs2"
    by (auto simp: grp1_def Let_def split: sum.splits)
  have p2: "g_params grp2 = g_params grp"
    using load_step_params [OF ls] by (simp add: grp1_def)
  from load_moments_ok [OF lm Cons.prems(2)] p2
  have "\<forall>q \<in> Q \<union> p_id ` set (g_params grp). \<forall>d. st1 q = Some d \<longrightarrow> moments_float32 d"
    by simp
  from Cons.IH [OF lg this] gs' p2 show ?case by auto
qed

lemma item_number: "item t = Inr n \<Longrightarrow> n \<noteq> PyTensor x"
  by (auto simp: item_def split: list.splits if_splits)

lemma load_groups_step:
  "load_groups False cur rank broadcast gs st = Inr (gs', st') \<Longrightarrow>
   list_all2 (\<lambda>g g'. g_step g' =
                (case g_step g of
                   Some (PyTensor t) \<Rightarrow> (case item t of Inr n \<Rightarrow> Some n | Inl e \<Rightarrow> None)
                 | other \<Rightarrow> other) \<and>
                (\<forall>t. g_step g = Some (PyTensor t) \<longrightarrow> (\<exists>n. item t = Inr n))) gs gs'"
proof (induction gs arbitrary: st gs')
  case Nil
  then show ?case by simp
next
  case (Cons grp gs)
  from Cons.prems obtain grp2 st1 gs2 where
    ls: "load_step False cur rank broadcast grp = Inr grp2"
    and lg: "load_groups False cur rank broadcast gs st1 = Inr (gs2, st')"
    and gs': "gs' = grp2 # gs2"
    by (auto simp: Let_def split: sum.splits)
  from ls have "g_step grp2 =
                (case g_step grp of
                   Some (PyTensor t) \<Rightarrow> (case item t of Inr n \<Rightarrow> Some n | Inl e \<Rightarrow> None)
                 | other \<Rightarrow> other) \<and>
                (\<forall>t. g_step grp = Some (PyTensor t) \<longrightarrow> (\<exists>n. item t = Inr n))"
    by (auto simp: load_step_def split: option.splits pyval.splits sum.splits)
  with Cons.IH [OF lg] gs' show ?case by simp
qed









lemma init_master_None:
  "FusedAdam_init base_init available params lr bias_correction betas eps adam_w weight_decay
     amsgrad capt mw = Inr self0 \<Longrightarrow> param_groups_master self0 = None"
  unfolding FusedAdam_init_def
  by (auto simp: Let_def split: if_splits sum.splits)




section \<open>The properties of the optimizer\<close>











text \<open>
  C6. The constructor leaves \<^verbatim>\<open>param_groups_master\<close> at \<^verbatim>\<open>None\<close>. A call of \<^verbatim>\<open>step\<close>
  that finds it \<^verbatim>\<open>None\<close> (after the closure ran) sets it to one list per group with one
  entry per parameter: with master weights a float32, detached tensor with the contents
  the parameter has at that moment, without master weights \<^verbatim>\<open>None\<close>. A call that finds a
  list leaves it as it is. Both hold whether the call returns or raises later.
\<close>

theorem master_weights_created_once:
  "(FusedAdam_init base_init available params lr bias_correction betas eps adam_w weight_decay
      amsgrad capt mw = Inr self0 \<longrightarrow> param_groups_master self0 = None) \<and>
   (run_closure closure self = (loss, self1) \<and>
    step closure None None None None scaler self = (res, self', tr) \<longrightarrow>
      (param_groups_master self1 = None \<longrightarrow>
         param_groups_master self' =
           Some (map (\<lambda>grp. map (\<lambda>p. if master_weights self1
                                        then Some ((p_data p)\<lparr>t_dtype := Float32,
                                                               requires_grad := False\<rparr>)
                                        else None) (g_params grp))
                     (param_groups self1))) \<and>
      (\<forall>m. param_groups_master self1 = Some m \<longrightarrow> param_groups_master self' = Some m))"
  using init_master_None [of base_init available params lr bias_correction betas eps adam_w
          weight_decay amsgrad capt mw self0]
    step_master_weights [of closure self loss self1 scaler res self' tr]
  by blast

theorem master_weights_created_once_witness:
  "run_closure (Some demo_closure) demo_opt = (Some 5, demo_opt\<lparr>dummy_overflow_buf := 7\<rparr>) \<and>
   param_groups_master (fst (snd (step (Some demo_closure) None None None None None demo_opt))) =
     Some [[None, None, None]] \<and>
   param_groups_master
     (fst (snd (step (Some demo_closure) None None None None None
                  (demo_opt\<lparr>capturable := True, master_weights := True\<rparr>)))) =
     Some [[Some (demo_w32\<lparr>requires_grad := False\<rparr>),
            Some (demo_w16\<lparr>t_dtype := Float32, requires_grad := False\<rparr>),
            Some (demo_w32\<lparr>requires_grad := False\<rparr>)]] \<and>
   param_groups_master
     (fst (snd (step (Some demo_closure) None None None None None
                  (demo_opt\<lparr>param_groups_master := Some []\<rparr>)))) = Some []"
proof -
  have s: "\<And>x :: (error + real option) \<times> optimizer \<times> kernel_call list.
             x = (fst x, fst (snd x), snd (snd x))"
    by simp
  have r: "\<And>self. run_closure (Some demo_closure) self = (Some 5, self\<lparr>dummy_overflow_buf := 7\<rparr>)"
    by (simp add: run_closure_def demo_closure_def)
  show ?thesis
    using master_weights_created_once [THEN conjunct2, rule_format, OF conjI, OF r s, of demo_opt None]
      master_weights_created_once [THEN conjunct2, rule_format, OF conjI, OF r s, of "demo_opt\<lparr>capturable := True, master_weights := True\<rparr>" None]
      master_weights_created_once [THEN conjunct2, rule_format, OF conjI, OF r s, of "demo_opt\<lparr>param_groups_master := Some []\<rparr>" None]
    by (simp add: r demo_defs)
qed

text \<open>
  C7. After \<^verbatim>\<open>load_state_dict\<close> returns: for every parameter of every group, a state
  with \<^verbatim>\<open>"exp_avg"\<close> has \<^verbatim>\<open>"exp_avg"\<close> and \<^verbatim>\<open>"exp_avg_sq"\<close> as float32 tensors; and in
  non-capturable mode a group whose loaded \<^verbatim>\<open>"step"\<close> was a tensor has the Python number
  \<^verbatim>\<open>step.item()\<close> instead.
\<close>

theorem load_state_dict_normalises:
  assumes "base_load self sd = Inr self1"
    and "load_state_dict base_load cur rank broadcast self sd = Inr self'"
  shows "(\<forall>grp \<in> set (param_groups self'). \<forall>p \<in> set (g_params grp). \<forall>d m.
            state self' (p_id p) = Some d \<and> d ''exp_avg'' = Some m \<longrightarrow>
              t_dtype m = Float32 \<and> (\<exists>v. d ''exp_avg_sq'' = Some v \<and> t_dtype v = Float32)) \<and>
         (\<not> capturable self1 \<longrightarrow>
            length (param_groups self') = length (param_groups self1) \<and>
            (\<forall>i < length (param_groups self1). \<forall>t.
               g_step (param_groups self1 ! i) = Some (PyTensor t) \<longrightarrow>
                 (\<exists>n. item t = Inr n \<and> (\<forall>x. n \<noteq> PyTensor x) \<and>
                       g_step (param_groups self' ! i) = Some n)))"
proof -
  from assms obtain gs' st' where
    lg: "load_groups (capturable self1) cur rank broadcast (param_groups self1) (state self1) =
           Inr (gs', st')"
    and self': "self' = self1\<lparr>param_groups := gs', state := st'\<rparr>"
    by (auto simp: load_state_dict_def split: sum.splits)
  from load_groups_ok [OF lg, of "{}"]
  have ps: "map g_params gs' = map g_params (param_groups self1)"
    and ok: "\<forall>q \<in> p_id ` (\<Union>grp \<in> set (param_groups self1). set (g_params grp)).
               \<forall>d. st' q = Some d \<longrightarrow> moments_float32 d"
    by auto
  have one: "t_dtype m = Float32 \<and> (\<exists>v. d ''exp_avg_sq'' = Some v \<and> t_dtype v = Float32)"
    if "grp \<in> set (param_groups self')" "p \<in> set (g_params grp)"
       "state self' (p_id p) = Some d \<and> d ''exp_avg'' = Some m" for grp p d m
  proof -
    from that(1,2) self' have "p \<in> (\<Union>grp \<in> set gs'. set (g_params grp))" by auto
    also have "(\<Union>grp \<in> set gs'. set (g_params grp)) = \<Union> (set (map (set \<circ> g_params) gs'))"
      by simp
    also have "\<dots> = \<Union> (set (map set (map g_params gs')))" by simp
    also have "\<dots> = (\<Union>grp \<in> set (param_groups self1). set (g_params grp))"
      unfolding ps by simp
    finally have "p_id p \<in> p_id ` (\<Union>grp \<in> set (param_groups self1). set (g_params grp))"
      by blast
    with ok that(3) self' have "moments_float32 d" by auto
    with that(3) show ?thesis by (simp add: moments_float32_def)
  qed
  have two: "length (param_groups self') = length (param_groups self1) \<and>
            (\<forall>i < length (param_groups self1). \<forall>t.
               g_step (param_groups self1 ! i) = Some (PyTensor t) \<longrightarrow>
                 (\<exists>n. item t = Inr n \<and> (\<forall>x. n \<noteq> PyTensor x) \<and>
                       g_step (param_groups self' ! i) = Some n))"
    if nc: "\<not> capturable self1"
  proof -
    from lg nc have "load_groups False cur rank broadcast (param_groups self1) (state self1) =
           Inr (gs', st')" by simp
    from load_groups_step [OF this]
    have la: "list_all2 (\<lambda>g g'. g_step g' =
                (case g_step g of
                   Some (PyTensor t) \<Rightarrow> (case item t of Inr n \<Rightarrow> Some n | Inl e \<Rightarrow> None)
                 | other \<Rightarrow> other) \<and>
                (\<forall>t. g_step g = Some (PyTensor t) \<longrightarrow> (\<exists>n. item t = Inr n)))
              (param_groups self1) gs'" .
    then have len: "length gs' = length (param_groups self1)"
      by (simp add: list_all2_lengthD)
    have "\<exists>n. item t = Inr n \<and> (\<forall>x. n \<noteq> PyTensor x) \<and> g_step (gs' ! i) = Some n"
      if "i < length (param_groups self1)" "g_step (param_groups self1 ! i) = Some (PyTensor t)"
      for i t
      using list_all2_nthD [OF la that(1)] that(2) item_number by auto
    with len self' show ?thesis by simp
  qed
  from one two show ?thesis by blast
qed

theorem load_state_dict_normalises_witness:
  "\<not> capturable demo_loaded \<and>
   (\<exists>self'. load_state_dict (\<lambda>self sd. Inr sd) 0 0 (\<lambda>t. t) demo_opt demo_loaded = Inr self' \<and>
      g_step (param_groups self' ! 0) = Some (PyInt 5) \<and>
      (\<exists>d m v. state self' 0 = Some d \<and> d ''exp_avg'' = Some m \<and> t_dtype m = Float32 \<and>
         d ''exp_avg_sq'' = Some v \<and> t_dtype v = Float32))"
proof -
  have b: "(\<lambda>self sd. Inr sd) demo_opt demo_loaded = (Inr demo_loaded :: error + optimizer)"
    by simp
  have e: "\<exists>self' d m. load_state_dict (\<lambda>self sd. Inr sd) 0 0 (\<lambda>t. t) demo_opt demo_loaded = Inr self' \<and>
             state self' 0 = Some d \<and> d ''exp_avg'' = Some m"
    by (simp add: load_state_dict_def load_step_def item_def demo_loaded_def demo_defs
        demo_step_tensor_def Let_def)
  then obtain self' d m where
    l: "load_state_dict (\<lambda>self sd. Inr sd) 0 0 (\<lambda>t. t) demo_opt demo_loaded = Inr self'"
    and st: "state self' 0 = Some d" "d ''exp_avg'' = Some m"
    by blast
  have nc: "\<not> capturable demo_loaded"
    by (simp add: demo_loaded_def demo_opt_def)
  have i: "item demo_step_tensor = Inr (PyInt 5)"
    by (simp add: item_def demo_step_tensor_def trunc_def)
  note t = load_state_dict_normalises [OF b l]
  from t [THEN conjunct2, rule_format, OF nc] i
  have stp: "g_step (param_groups self' ! 0) = Some (PyInt 5)"
    by (auto simp: demo_loaded_def)
  have p: "demo_group\<lparr>g_step := Some (PyInt 5)\<rparr> \<in> set (param_groups self')"
    using l by (simp add: load_state_dict_def load_step_def i demo_loaded_def demo_defs Let_def
                  split: sum.splits) auto
  have q: "demo_p32 \<in> set (g_params (demo_group\<lparr>g_step := Some (PyInt 5)\<rparr>))"
    by (simp add: demo_group_def)
  from t [THEN conjunct1, rule_format, OF p q, of d m] st
  have "t_dtype m = Float32 \<and> (\<exists>v. d ''exp_avg_sq'' = Some v \<and> t_dtype v = Float32)"
    by (simp add: demo_p32_def)
  with l stp st nc show ?thesis by blast
qed

text \<open>
  C8. The constructor raises \<^verbatim>\<open>RuntimeError\<close> when \<^verbatim>\<open>amsgrad\<close> is set, and when
  \<^verbatim>\<open>master_weights\<close> is set without \<^verbatim>\<open>capturable\<close>. Both checks come before the
  base class builds the parameter groups and the state: the outcome is the same whatever
  the base constructor would do with the parameters, and whether or not the extension is
  available.
\<close>

theorem init_rejects_flags:
  "(amsgrad \<longrightarrow>
      FusedAdam_init base_init available params lr bias_correction betas eps adam_w weight_decay
        amsgrad capt mw =
      Inl (RuntimeError ''FusedAdam does not support the AMSGrad variant.'')) \<and>
   (\<not> amsgrad \<and> mw \<and> \<not> capt \<longrightarrow>
      FusedAdam_init base_init available params lr bias_correction betas eps adam_w weight_decay
        amsgrad capt mw =
      Inl (RuntimeError
        ''Master weights is currently only supported with the capturable version.''))"
  unfolding FusedAdam_init_def by simp

theorem init_rejects_flags_witness:
  "FusedAdam_init demo_base_init True [demo_p32] (PyFloat (1 / 1000)) True (9 / 10, 999 / 1000)
     (1 / 100000000) True 0 True False False =
     Inl (RuntimeError ''FusedAdam does not support the AMSGrad variant.'') \<and>
   FusedAdam_init demo_base_init True [demo_p32] (PyFloat (1 / 1000)) True (9 / 10, 999 / 1000)
     (1 / 100000000) True 0 False False True =
     Inl (RuntimeError
       ''Master weights is currently only supported with the capturable version.'')"
  using init_rejects_flags [of True demo_base_init True "[demo_p32]" "PyFloat (1 / 1000)" True
          "(9 / 10, 999 / 1000)" "1 / 100000000" True 0 False False]
        init_rejects_flags [of False demo_base_init True "[demo_p32]" "PyFloat (1 / 1000)" True
          "(9 / 10, 999 / 1000)" "1 / 100000000" True 0 False True]
  by simp

text \<open>
  C9. \<^verbatim>\<open>step\<close> raises \<^verbatim>\<open>RuntimeError\<close> as soon as one of the deprecated arguments
  \<^verbatim>\<open>grads\<close>, \<^verbatim>\<open>output_params\<close>, \<^verbatim>\<open>scale\<close>, \<^verbatim>\<open>grad_norms\<close> is not \<^verbatim>\<open>None\<close>.
  Whatever the closure and the scaler are, the optimizer afterwards is the optimizer
  before (step counters, moments and master weights included) and no kernel was launched:
  the closure was not run.
\<close>

theorem step_deprecated_arguments:
  assumes "grads \<noteq> None \<or> output_params \<noteq> None \<or> scale \<noteq> None \<or> grad_norms \<noteq> None"
  shows "step closure grads output_params scale grad_norms scaler self =
           (Inl (RuntimeError
              (''FusedAdam has been updated. '' @
               ''Simply initialize it identically to torch.optim.Adam, and call step() with no arguments.'')),
            self, [])"
  using assms unfolding step_def by auto

theorem step_deprecated_arguments_witness:
  "Some (PyObj 1) \<noteq> None \<and>
   snd (step (Some demo_closure) None None (Some (PyObj 1)) None None demo_opt) = (demo_opt, [])"
  using step_deprecated_arguments [of None None "Some (PyObj 1)" None "Some demo_closure" None demo_opt]
  by simp

text \<open>
  C10. A parameter whose gradient is \<^verbatim>\<open>None\<close> (wherever its identity occurs in the
  groups, after the closure ran). Whether \<^verbatim>\<open>step\<close> returns or raises, the parameters of
  the groups are what they were, the entry of \<^verbatim>\<open>self.state\<close> for the parameter is what
  it was (none, if there was none), and no tensor of the parameter is in a list of a launch.
\<close>

theorem step_skips_parameters_without_gradient:
  assumes "run_closure closure self = (loss, self1)"
    and "step closure None None None None scaler self = (res, self', tr)"
    and "\<forall>grp \<in> set (param_groups self1). \<forall>p \<in> set (g_params grp). p_id p = q \<longrightarrow> p_grad p = None"
  shows "map g_params (param_groups self') = map g_params (param_groups self1) \<and>
         state self' q = state self1 q \<and>
         (\<forall>c \<in> set tr. \<forall>l \<in> set (k_lists c). \<forall>x \<in> set l. o_owner x \<noteq> q)"
proof -
  from assms(1,2) obtain r gs' w where
    sl: "step_loop (capturable self1) (master_weights self1) (adam_w_mode self1) scaler
       (param_groups self1) (ensure_master self1)
       \<lparr>w_state = state self1, w_buf = dummy_overflow_buf self1, w_trace = []\<rparr> = (r, gs', w)"
    and "res = (case r of Some e \<Rightarrow> Inl e | None \<Rightarrow> Inr loss)"
    and self': "self' = self1\<lparr>param_groups_master := Some (ensure_master self1), param_groups := gs',
                   state := w_state w, dummy_overflow_buf := w_buf w\<rparr>"
    and tr: "tr = w_trace w"
    by (rule step_loop_of_step)
  have none: "p_grad p = None"
    if "p \<in> set (visited_params (param_groups self1) (ensure_master self1))" "p_id p = q" for p
    using visited_params_subset [OF that(1)] that(2) assms(3) by auto
  have "map g_params (param_groups self') = map g_params (param_groups self1)"
    using step_loop_params [OF sl] self' by simp
  moreover have "state self' q = state self1 q"
    using step_loop_state_cases [OF sl, of q] none self' by auto
  moreover have "o_owner x \<noteq> q" if "c \<in> set tr" "l \<in> set (k_lists c)" "x \<in> set l" for c l x
  proof -
    from step_loop_trace [OF sl] that(1) tr
    have "launch_ok (capturable self1) (master_weights self1)
            (visited_params (param_groups self1) (ensure_master self1)) c"
      by auto
    with that(2,3) obtain p where
      "p \<in> set (visited_params (param_groups self1) (ensure_master self1))"
      "p_grad p \<noteq> None" "o_owner x = p_id p"
      unfolding launch_ok_def by blast
    with none show ?thesis by auto
  qed
  ultimately show ?thesis by blast
qed

theorem step_skips_parameters_without_gradient_witness:
  "p_grad demo_frozen = None \<and>
   map g_params (param_groups (fst (snd (step (Some demo_closure) None None None None None demo_opt)))) =
     [[demo_p32, demo_p16, demo_frozen]] \<and>
   state (fst (snd (step (Some demo_closure) None None None None None demo_opt))) (p_id demo_frozen) =
     None"
proof -
  have s: "\<And>x :: (error + real option) \<times> optimizer \<times> kernel_call list.
             x = (fst x, fst (snd x), snd (snd x))"
    by simp
  have r: "run_closure (Some demo_closure) demo_opt = (Some 5, demo_opt\<lparr>dummy_overflow_buf := 7\<rparr>)"
    by (simp add: run_closure_def demo_closure_def)
  have h: "\<forall>grp \<in> set (param_groups (demo_opt\<lparr>dummy_overflow_buf := 7\<rparr>)).
             \<forall>p \<in> set (g_params grp). p_id p = p_id demo_frozen \<longrightarrow> p_grad p = None"
    by (simp add: demo_defs)
  show ?thesis
    using step_skips_parameters_without_gradient [OF r s h]
    by (simp add: demo_defs)
qed

end
